theory Spec2Isabelle
  imports Complex_Main
begin

section \<open>Data model\<close>

text \<open>
  The notebook \<^verbatim>\<open>Week7/DecisionTrees.ipynb\<close> works on a table of categorical records
  whose last column is the target. A table is its list of column names, in schema order,
  and its rows; \<^verbatim>\<open>list(S)\<close> is the list of column names.
\<close>

record dataset =
  columns :: "string list"
  rows :: "string list list"

text \<open>
  The values a Python call to \<^verbatim>\<open>Gain\<close> or \<^verbatim>\<open>Entropy\<close> can hand back as far as this
  development follows them: \<^verbatim>\<open>None\<close>, a float that is not a number, or an ordinary float.
  Floats are only ever compared, by their value, so \<open>PyNum\<close> carries a value of any
  linear order. Gains of other Python types (integers, which the array conversion would
  round to floats) are not modelled.
\<close>

datatype 'a pyval = PyNone | PyNaN | PyNum 'a

text \<open>
  Errors as values. \<open>ValueError\<close>, \<open>TypeError\<close> and \<open>IndexError\<close> are the exceptions the
  code and the library calls it makes can raise. \<open>InvalidInputError\<close> and
  \<open>EmptyDatasetError\<close> are the two errors the specification names; no statement of the
  notebook raises either of them.
\<close>

datatype py_error = ValueError | TypeError | IndexError | InvalidInputError | EmptyDatasetError

section \<open>The shipped \<^verbatim>\<open>Entropy\<close> and \<^verbatim>\<open>Gain\<close>\<close>

text \<open>
  \<^verbatim>\<open>
  # Complete me
  def Entropy(S):
      """
      Entropy function that returns the entropy of a given dataset S
      """
      return

  # Complete me
  def Gain(S, feature):
      """
      Gain function that returns the gain for a given feature
      """
      return
  \<close>
  A bare \<^verbatim>\<open>return\<close> hands back \<^verbatim>\<open>None\<close>; neither body can raise.
\<close>

definition Entropy :: "dataset \<Rightarrow> py_error + 'a pyval" where
  "Entropy S = Inr PyNone"

definition Gain :: "dataset \<Rightarrow> string \<Rightarrow> py_error + 'a pyval" where
  "Gain S feature = Inr PyNone"

section \<open>The library call \<^verbatim>\<open>np.argmax(np.array(gains))\<close>\<close>

text \<open>
  The array library is not part of the repository; this is its behaviour on a Python list.
  An empty list gives an empty array, whose argmax raises \<open>ValueError\<close>. A list that holds
  a \<^verbatim>\<open>None\<close> becomes an array of objects, scanned with Python's \<^verbatim>\<open>>\<close>, which raises
  \<open>TypeError\<close> as soon as one side is \<^verbatim>\<open>None\<close>. A list of floats becomes an array of
  floats, scanned left to right: the running maximum is replaced only by an element that
  is not \<^verbatim>\<open><=\<close> it, and the first not-a-number ends the scan as the maximum.
\<close>

fun py_gt :: "'a::linorder pyval \<Rightarrow> 'a pyval \<Rightarrow> py_error + bool" where
  "py_gt PyNone _ = Inl TypeError"
| "py_gt _ PyNone = Inl TypeError"
| "py_gt (PyNum a) (PyNum b) = Inr (b < a)"
| "py_gt _ _ = Inr False"

fun OBJECT_argmax :: "'a::linorder pyval list \<Rightarrow> nat \<Rightarrow> 'a pyval \<Rightarrow> nat \<Rightarrow> py_error + nat" where
  "OBJECT_argmax [] i mp max_ind = Inr max_ind"
| "OBJECT_argmax (v # vs) i mp max_ind =
     (case py_gt v mp of
        Inl e \<Rightarrow> Inl e
      | Inr greater_than \<Rightarrow>
          if greater_than then OBJECT_argmax vs (Suc i) v i
          else OBJECT_argmax vs (Suc i) mp max_ind)"

fun float_le :: "'a::linorder pyval \<Rightarrow> 'a pyval \<Rightarrow> bool" where
  "float_le (PyNum a) (PyNum b) = (a \<le> b)"
| "float_le _ _ = False"

fun DOUBLE_argmax :: "'a::linorder pyval list \<Rightarrow> nat \<Rightarrow> 'a pyval \<Rightarrow> nat \<Rightarrow> nat" where
  "DOUBLE_argmax [] i mp max_ind = max_ind"
| "DOUBLE_argmax (v # vs) i mp max_ind =
     (if \<not> float_le v mp
      then (if v = PyNaN then i else DOUBLE_argmax vs (Suc i) v i)
      else DOUBLE_argmax vs (Suc i) mp max_ind)"

definition np_argmax :: "'a::linorder pyval list \<Rightarrow> py_error + nat" where
  "np_argmax gains =
     (case gains of
        [] \<Rightarrow> Inl ValueError
      | v # vs \<Rightarrow>
          if PyNone \<in> set gains then OBJECT_argmax vs 1 v 0
          else if v = PyNaN then Inr 0
          else Inr (DOUBLE_argmax vs 1 v 0))"

text \<open>Indexing a Python list with a non-negative index.\<close>

definition py_index :: "'b list \<Rightarrow> nat \<Rightarrow> py_error + 'b" where
  "py_index xs i = (if i < length xs then Inr (xs ! i) else Inl IndexError)"

section \<open>\<^verbatim>\<open>find_node\<close>\<close>

text \<open>
  \<^verbatim>\<open>
  def find_node(S):
      cols = list(S)
      gains = []
      # loop through features. Last is the target so we will skip that.
      for c in cols[:-1]:
          gains.append(Gain(S,c))
      gains = np.array(gains)
      return cols[np.argmax(gains)]
  \<close>
  The name \<^verbatim>\<open>Gain\<close> is a global of the notebook, looked up when \<^verbatim>\<open>find_node\<close> runs, so
  the function is modelled with the gain function as its first argument; the notebook as
  shipped runs \<open>find_node Gain\<close>. The loop is \<open>gains_loop\<close>: it stops at the first
  call that raises.
\<close>

fun gains_loop ::
  "(dataset \<Rightarrow> string \<Rightarrow> py_error + 'a pyval) \<Rightarrow> dataset \<Rightarrow> string list \<Rightarrow> 'a pyval list
     \<Rightarrow> py_error + 'a pyval list" where
  "gains_loop G S [] gains = Inr gains"
| "gains_loop G S (c # cs) gains =
     (case G S c of
        Inl e \<Rightarrow> Inl e
      | Inr g \<Rightarrow> gains_loop G S cs (gains @ [g]))"

definition find_node ::
  "(dataset \<Rightarrow> string \<Rightarrow> py_error + 'a::linorder pyval) \<Rightarrow> dataset \<Rightarrow> py_error + string" where
  "find_node G S =
     (let cols = columns S in
      case gains_loop G S (butlast cols) [] of
        Inl e \<Rightarrow> Inl e
      | Inr gains \<Rightarrow>
          (case np_argmax gains of
             Inl e \<Rightarrow> Inl e
           | Inr i \<Rightarrow> py_index cols i))"

section \<open>Concrete tables\<close>

text \<open>The worked example of the specification: one feature \<open>A\<close> and the label \<open>L\<close>.\<close>

definition worked_example :: dataset where
  "worked_example =
     \<lparr>columns = [''A'', ''L''],
      rows = [[''x'', ''0''], [''x'', ''1''], [''y'', ''1''], [''y'', ''1'']]\<rparr>"

text \<open>The first five rows of the car evaluation data, as the notebook displays them.\<close>

definition car_head :: dataset where
  "car_head =
     \<lparr>columns = [''buying'', ''maint'', ''doors'', ''persons'', ''lug_boot'', ''safety'',
                 ''acceptability''],
      rows = [[''vhigh'', ''vhigh'', ''2'', ''2'', ''small'', ''low'', ''unacc''],
              [''vhigh'', ''vhigh'', ''2'', ''2'', ''small'', ''med'', ''unacc''],
              [''vhigh'', ''vhigh'', ''2'', ''2'', ''small'', ''high'', ''unacc''],
              [''vhigh'', ''vhigh'', ''2'', ''2'', ''med'', ''low'', ''unacc''],
              [''vhigh'', ''vhigh'', ''2'', ''2'', ''med'', ''med'', ''unacc'']]\<rparr>"


definition no_records :: dataset where
  "no_records = \<lparr>columns = [''A'', ''L''], rows = []\<rparr>"

text \<open>
  A table on which two features tie: \<open>A\<close> is constant, \<open>B\<close> and \<open>C\<close> are copies of each
  other and decide the label, which takes its two values once each.
\<close>

definition tie_data :: dataset where
  "tie_data =
     \<lparr>columns = [''A'', ''B'', ''C'', ''L''],
      rows = [[''x'', ''p'', ''p'', ''0''], [''x'', ''q'', ''q'', ''1'']]\<rparr>"

text \<open>
  \<^verbatim>\<open>find_node\<close> takes whatever \<^verbatim>\<open>Gain\<close> the notebook defines when it runs. \<open>tie_Gain\<close> is
  a completed gain function given as a table: on \<open>tie_data\<close> it is the information gain
  of each feature (0 for \<open>A\<close>, 1 bit for \<open>B\<close> and for \<open>C\<close>). \<open>guarded_Gain\<close> is the same
  function with the check the specification asks of \<open>gain\<close>: it refuses the label column.
\<close>

definition tie_gain :: "string \<Rightarrow> real" where
  "tie_gain c = (if c = ''B'' \<or> c = ''C'' then 1 else 0)"

definition tie_Gain :: "dataset \<Rightarrow> string \<Rightarrow> py_error + real pyval" where
  "tie_Gain S feature = Inr (PyNum (tie_gain feature))"

definition guarded_Gain :: "dataset \<Rightarrow> string \<Rightarrow> py_error + real pyval" where
  "guarded_Gain S feature =
     (if feature = last (columns S) then Inl InvalidInputError else tie_Gain S feature)"

section \<open>Facts about the loop and the argmax scan\<close>

lemma gains_loop_numbers:
  "\<forall>c \<in> set cs. G S c = Inr (PyNum (g c)) \<Longrightarrow>
   gains_loop G S cs acc = Inr (acc @ map (\<lambda>c. PyNum (g c)) cs)"
  by (induction cs arbitrary: acc) auto

lemma gains_loop_cong:
  "\<forall>c \<in> set cs. G S c = G' S c \<Longrightarrow> gains_loop G S cs acc = gains_loop G' S cs acc"
  by (induction cs arbitrary: acc) (auto split: sum.splits)

lemma gains_loop_length:
  "gains_loop G S cs acc = Inr gs \<Longrightarrow> length gs = length acc + length cs"
  by (induction cs arbitrary: acc) (auto split: sum.splits)


lemma OBJECT_argmax_bound:
  "OBJECT_argmax vs i mp mi = Inr r \<Longrightarrow> mi < i \<Longrightarrow> r < i + length vs"
  by (induction vs i mp mi rule: OBJECT_argmax.induct) (auto split: sum.splits if_splits)


lemma DOUBLE_argmax_bound:
  "mi < i \<Longrightarrow> DOUBLE_argmax vs i mp mi < i + length vs"
  by (induction vs i mp mi rule: DOUBLE_argmax.induct) auto

lemma np_argmax_bound: "np_argmax gains = Inr r \<Longrightarrow> r < length gains"
proof (cases gains)
  case Nil
  assume "np_argmax gains = Inr r"
  with Nil show ?thesis by (simp add: np_argmax_def)
next
  case (Cons v vs)
  assume r: "np_argmax gains = Inr r"
  have d: "DOUBLE_argmax vs 1 v 0 < 1 + length vs"
    by (rule DOUBLE_argmax_bound) simp
  have o: "OBJECT_argmax vs 1 v 0 = Inr r \<Longrightarrow> r < 1 + length vs"
    by (rule OBJECT_argmax_bound) simp_all
  from r Cons d o show ?thesis
    by (auto simp: np_argmax_def split: if_splits)
qed


lemma DOUBLE_argmax_first_max:
  fixes xs ys :: "'a::linorder list"
  assumes "length ys = k" and "mi < k" and "ys ! mi = m"
    and "\<forall>j<k. ys ! j \<le> m" and "\<forall>j<mi. ys ! j < m"
  shows "DOUBLE_argmax (map PyNum xs) k (PyNum m) mi < k + length xs \<and>
         (\<forall>j < k + length xs. (ys @ xs) ! j \<le> (ys @ xs) ! DOUBLE_argmax (map PyNum xs) k (PyNum m) mi) \<and>
         (\<forall>j < DOUBLE_argmax (map PyNum xs) k (PyNum m) mi.
             (ys @ xs) ! j < (ys @ xs) ! DOUBLE_argmax (map PyNum xs) k (PyNum m) mi)"
  using assms
proof (induction xs arbitrary: ys k mi m)
  case Nil
  then show ?case by simp
next
  case (Cons x xs)
  show ?case
  proof (cases "x \<le> m")
    case True
    have len: "length (ys @ [x]) = Suc k" using Cons.prems by simp
    have at: "(ys @ [x]) ! mi = m" using Cons.prems by (simp add: nth_append)
    have le: "\<forall>j<Suc k. (ys @ [x]) ! j \<le> m"
      using Cons.prems True by (auto simp: nth_append less_Suc_eq)
    have lt: "\<forall>j<mi. (ys @ [x]) ! j < m"
      using Cons.prems by (auto simp: nth_append)
    have mi: "mi < Suc k" using Cons.prems by simp
    from Cons.IH[OF len mi at le lt] True show ?thesis by simp
  next
    case False
    then have xm: "m < x" by simp
    have len: "length (ys @ [x]) = Suc k" using Cons.prems by simp
    have at: "(ys @ [x]) ! k = x" using Cons.prems by (simp add: nth_append)
    have le: "\<forall>j<Suc k. (ys @ [x]) ! j \<le> x"
    proof (intro allI impI)
      fix j assume "j < Suc k"
      then consider "j < k" | "j = k" by linarith
      then show "(ys @ [x]) ! j \<le> x"
      proof cases
        case 1
        with Cons.prems have "ys ! j \<le> m" by simp
        then have "ys ! j \<le> x" using xm by simp
        moreover have "(ys @ [x]) ! j = ys ! j" using 1 Cons.prems by (simp add: nth_append)
        ultimately show ?thesis by simp
      next
        case 2
        with at show ?thesis by simp
      qed
    qed
    have lt: "\<forall>j<k. (ys @ [x]) ! j < x"
    proof (intro allI impI)
      fix j assume j: "j < k"
      with Cons.prems have "ys ! j \<le> m" by simp
      then have "ys ! j < x" using xm by simp
      moreover have "(ys @ [x]) ! j = ys ! j" using j Cons.prems by (simp add: nth_append)
      ultimately show "(ys @ [x]) ! j < x" by simp
    qed
    have k: "k < Suc k" by simp
    from Cons.IH[OF len k at le lt] False show ?thesis by simp
  qed
qed

lemma np_argmax_numbers:
  fixes xs :: "'a::linorder list"
  assumes "xs \<noteq> []"
  shows "\<exists>i < length xs. np_argmax (map PyNum xs) = Inr i \<and>
           (\<forall>j < length xs. xs ! j \<le> xs ! i) \<and> (\<forall>j < i. xs ! j < xs ! i)"
proof -
  from assms obtain x xs' where xs: "xs = x # xs'" by (cases xs) auto
  define r where "r = DOUBLE_argmax (map PyNum xs') 1 (PyNum x) 0"
  have "r < 1 + length xs' \<and> (\<forall>j < 1 + length xs'. ([x] @ xs') ! j \<le> ([x] @ xs') ! r) \<and>
        (\<forall>j < r. ([x] @ xs') ! j < ([x] @ xs') ! r)"
    unfolding r_def by (rule DOUBLE_argmax_first_max) simp_all
  moreover have "np_argmax (map PyNum xs) = Inr r"
    by (auto simp: np_argmax_def xs r_def)
  ultimately show ?thesis using xs by auto
qed

section \<open>Facts about \<^verbatim>\<open>find_node\<close>\<close>

lemma find_node_cong:
  "\<forall>c \<in> set (butlast (columns S)). G S c = G' S c \<Longrightarrow> find_node G S = find_node G' S"
  using gains_loop_cong[of "butlast (columns S)" G S G' "[]"] by (simp add: find_node_def)

lemma find_node_result_index:
  assumes "find_node G S = Inr name"
  shows "\<exists>i < length (columns S) - 1. name = columns S ! i"
proof -
  from assms obtain gains i where g: "gains_loop G S (butlast (columns S)) [] = Inr gains"
    and a: "np_argmax gains = Inr i" and p: "py_index (columns S) i = Inr name"
    by (auto simp: find_node_def Let_def split: sum.splits)
  from g have "length gains = length (columns S) - 1" by (auto dest: gains_loop_length)
  with a have "i < length (columns S) - 1" by (auto dest: np_argmax_bound)
  moreover from p have "name = columns S ! i" by (auto simp: py_index_def split: if_splits)
  ultimately show ?thesis by blast
qed



section \<open>The shipped stubs\<close>

text \<open>
  Claim C9. As shipped, \<^verbatim>\<open>Entropy\<close> returns \<^verbatim>\<open>None\<close> for every dataset and \<^verbatim>\<open>Gain\<close>
  returns \<^verbatim>\<open>None\<close> for every dataset and every feature: both bodies are a bare
  \<^verbatim>\<open>return\<close>.
\<close>

theorem stubs_return_None:
  "Entropy S = Inr PyNone \<and> Gain S feature = Inr PyNone"
  by (simp add: Entropy_def Gain_def)

section \<open>Choosing the split\<close>

text \<open>
  The scan of \<^verbatim>\<open>find_node\<close> on its own: run with a gain function that returns a float
  \<open>g c\<close> on every feature column \<open>c\<close>, it gathers the gains of all columns but the last
  in schema order and returns the first column whose gain is maximal. On \<open>tie_data\<close>,
  where \<open>B\<close> and \<open>C\<close> tie, that is \<open>B\<close>.
\<close>

lemma find_node_float_gains:
  fixes G :: "dataset \<Rightarrow> string \<Rightarrow> py_error + 'a::linorder pyval"
  assumes cols: "2 \<le> length (columns S)"
    and nums: "\<forall>c \<in> set (butlast (columns S)). G S c = Inr (PyNum (g c))"
  shows "gains_loop G S (butlast (columns S)) [] =
           Inr (map (\<lambda>c. PyNum (g c)) (butlast (columns S))) \<and>
         (\<exists>i < length (columns S) - 1.
            find_node G S = Inr (columns S ! i) \<and>
            (\<forall>j < length (columns S) - 1. g (columns S ! j) \<le> g (columns S ! i)) \<and>
            (\<forall>j < i. g (columns S ! j) < g (columns S ! i)))"
proof -
  define fs where "fs = butlast (columns S)"
  define xs where "xs = map g fs"
  have len: "length xs = length (columns S) - 1" by (simp add: xs_def fs_def)
  have loop: "gains_loop G S fs [] = Inr (map PyNum xs)"
    using gains_loop_numbers[of fs G S g "[]"] nums by (simp add: fs_def xs_def comp_def)
  have "xs \<noteq> []" using cols len by auto
  then obtain i where i: "i < length xs" "np_argmax (map PyNum xs) = Inr i"
    and le: "\<forall>j < length xs. xs ! j \<le> xs ! i" and lt: "\<forall>j < i. xs ! j < xs ! i"
    using np_argmax_numbers[of xs] by blast
  have nth: "xs ! j = g (columns S ! j)" if "j < length (columns S) - 1" for j
    using that by (simp add: xs_def fs_def nth_butlast)
  have "find_node G S = py_index (columns S) i"
    using loop i(2) by (simp add: find_node_def fs_def)
  also have "\<dots> = Inr (columns S ! i)" using i(1) len by (simp add: py_index_def)
  finally have res: "find_node G S = Inr (columns S ! i)" .
  have le': "\<forall>j < length (columns S) - 1. g (columns S ! j) \<le> g (columns S ! i)"
    using le nth i(1) len by auto
  have lt': "\<forall>j < i. g (columns S ! j) < g (columns S ! i)"
    using lt nth i(1) len by auto
  have "gains_loop G S (butlast (columns S)) [] = Inr (map (\<lambda>c. PyNum (g c)) (butlast (columns S)))"
    using loop by (simp add: fs_def xs_def comp_def)
  with res le' lt' i(1) len show ?thesis by auto
qed

lemma find_node_float_gains_tie:
  "2 \<le> length (columns tie_data) \<and>
   butlast (columns tie_data) = [''A'', ''B'', ''C''] \<and>
   tie_Gain tie_data ''A'' = Inr (PyNum (tie_gain ''A'')) \<and>
   tie_Gain tie_data ''B'' = Inr (PyNum (tie_gain ''B'')) \<and>
   tie_Gain tie_data ''C'' = Inr (PyNum (tie_gain ''C'')) \<and>
   gains_loop tie_Gain tie_data [''A'', ''B'', ''C''] [] = Inr [PyNum 0, PyNum 1, PyNum 1] \<and>
   find_node tie_Gain tie_data = Inr ''B''"
proof -
  have h1: "2 \<le> length (columns tie_data)" by (simp add: tie_data_def)
  have h2: "\<forall>c \<in> set (butlast (columns tie_data)). tie_Gain tie_data c = Inr (PyNum (tie_gain c))"
    by (simp add: tie_Gain_def)
  from find_node_float_gains[of tie_data tie_Gain tie_gain, OF h1 h2]
  obtain i where loop: "gains_loop tie_Gain tie_data (butlast (columns tie_data)) [] =
        Inr (map (\<lambda>c. PyNum (tie_gain c)) (butlast (columns tie_data)))"
    and i: "i < length (columns tie_data) - 1"
    and res: "find_node tie_Gain tie_data = Inr (columns tie_data ! i)"
    and le: "\<forall>j < length (columns tie_data) - 1. tie_gain (columns tie_data ! j) \<le> tie_gain (columns tie_data ! i)"
    and lt: "\<forall>j < i. tie_gain (columns tie_data ! j) < tie_gain (columns tie_data ! i)"
    by blast
  from i have "i = 0 \<or> i = 1 \<or> i = 2" by (auto simp: tie_data_def)
  moreover have "i \<noteq> 0"
  proof
    assume "i = 0"
    with le[rule_format, of 1] show False by (simp add: tie_data_def tie_gain_def)
  qed
  moreover have "i \<noteq> 2"
  proof
    assume "i = 2"
    with lt[rule_format, of 1] show False by (simp add: tie_data_def tie_gain_def)
  qed
  ultimately have "i = 1" by blast
  with res have "find_node tie_Gain tie_data = Inr ''B''" by (simp add: tie_data_def)
  moreover from loop have "gains_loop tie_Gain tie_data [''A'', ''B'', ''C''] [] = Inr [PyNum 0, PyNum 1, PyNum 1]"
    by (simp add: tie_data_def tie_gain_def)
  moreover have "butlast (columns tie_data) = [''A'', ''B'', ''C'']" by (simp add: tie_data_def)
  ultimately show ?thesis using h1 by (simp add: tie_Gain_def)
qed

text \<open>
  Claim C1. For every dataset with at least one record and one feature column,
  \<^verbatim>\<open>find_node\<close> computes the gain of every feature column in schema order and returns the
  name of the feature with maximal gain, the first one on ties. Every record of
  \<open>car_head\<close> is labelled \<open>unacc\<close>, so each of its six features has gain 0 and the first,
  \<open>buying\<close>, is to be returned. Run as shipped, \<^verbatim>\<open>find_node\<close> collects a \<^verbatim>\<open>None\<close> from
  \<^verbatim>\<open>Gain\<close> for each feature and the argmax over them raises \<open>TypeError\<close>.
\<close>

theorem find_node_shipped_raises:
  "gains_loop (Gain :: dataset \<Rightarrow> string \<Rightarrow> py_error + real pyval) car_head
     [''buying'', ''maint'', ''doors'', ''persons'', ''lug_boot'', ''safety''] [] =
     Inr [PyNone, PyNone, PyNone, PyNone, PyNone, PyNone] \<and>
   find_node (Gain :: dataset \<Rightarrow> string \<Rightarrow> py_error + real pyval) car_head = Inl TypeError \<and>
   find_node (Gain :: dataset \<Rightarrow> string \<Rightarrow> py_error + real pyval) car_head \<noteq> Inr ''buying''"
  by (simp add: find_node_def Gain_def car_head_def np_argmax_def)

text \<open>
  Claim C10. \<^verbatim>\<open>find_node\<close> takes the label column to be the last column, by position: its
  result depends on the gain function only through the columns before the last one, and
  a name it returns is the name of one of those columns, at an index below the last; when
  the column names are distinct it is not the name of the last column.
\<close>

theorem find_node_skips_last_column:
  "((\<forall>c \<in> set (butlast (columns S)). G S c = G' S c) \<longrightarrow> find_node G S = find_node G' S) \<and>
   (find_node G S = Inr name \<longrightarrow>
      (\<exists>i < length (columns S) - 1. name = columns S ! i) \<and>
      name \<in> set (butlast (columns S)) \<and>
      (distinct (columns S) \<longrightarrow> name \<noteq> last (columns S)))"
proof (intro conjI impI)
  assume "\<forall>c \<in> set (butlast (columns S)). G S c = G' S c"
  then show "find_node G S = find_node G' S" by (rule find_node_cong)
next
  assume r: "find_node G S = Inr name"
  then show "\<exists>i < length (columns S) - 1. name = columns S ! i" by (rule find_node_result_index)
next
  assume r: "find_node G S = Inr name"
  then obtain i where i: "i < length (columns S) - 1" "name = columns S ! i"
    using find_node_result_index by blast
  then have "name = butlast (columns S) ! i" by (simp add: nth_butlast)
  with i show "name \<in> set (butlast (columns S))" by (metis length_butlast nth_mem)
next
  assume r: "find_node G S = Inr name" and d: "distinct (columns S)"
  then obtain i where i: "i < length (columns S) - 1" "name = columns S ! i"
    using find_node_result_index by blast
  then have ne: "columns S \<noteq> []" by auto
  then have "last (columns S) = columns S ! (length (columns S) - 1)" by (rule last_conv_nth)
  with i d show "name \<noteq> last (columns S)"
    by (auto simp: nth_eq_iff_index_eq)
qed

theorem find_node_skips_last_column_witness:
  "butlast (columns tie_data) = [''A'', ''B'', ''C''] \<and>
   tie_Gain tie_data ''A'' = guarded_Gain tie_data ''A'' \<and>
   tie_Gain tie_data ''B'' = guarded_Gain tie_data ''B'' \<and>
   tie_Gain tie_data ''C'' = guarded_Gain tie_data ''C'' \<and>
   guarded_Gain tie_data ''L'' = Inl InvalidInputError \<and>
   find_node tie_Gain tie_data = Inr ''B'' \<and>
   find_node guarded_Gain tie_data = Inr ''B'' \<and>
   distinct (columns tie_data) \<and>
   ''B'' \<in> set (butlast (columns tie_data)) \<and> ''B'' \<noteq> last (columns tie_data)"
proof -
  have h1: "\<forall>c \<in> set (butlast (columns tie_data)). tie_Gain tie_data c = guarded_Gain tie_data c"
    by (simp add: guarded_Gain_def tie_data_def)
  have h2: "find_node tie_Gain tie_data = Inr ''B''"
    by (simp add: find_node_def tie_Gain_def tie_data_def tie_gain_def np_argmax_def py_index_def)
  have h3: "distinct (columns tie_data)" by (simp add: tie_data_def)
  have h4: "butlast (columns tie_data) = [''A'', ''B'', ''C''] \<and>
      tie_Gain tie_data ''A'' = guarded_Gain tie_data ''A'' \<and>
      tie_Gain tie_data ''B'' = guarded_Gain tie_data ''B'' \<and>
      tie_Gain tie_data ''C'' = guarded_Gain tie_data ''C'' \<and>
      guarded_Gain tie_data ''L'' = Inl InvalidInputError"
    by (simp add: guarded_Gain_def tie_data_def)
  from find_node_skips_last_column[of tie_data tie_Gain guarded_Gain "''B''"] h1 h2 h3 h4
  show ?thesis by simp
qed

section \<open>Errors\<close>




text \<open>
  Claim C8, as stated: \<^verbatim>\<open>Entropy\<close> and \<^verbatim>\<open>Gain\<close> raise \<open>EmptyDatasetError\<close> on a dataset
  without records, and \<^verbatim>\<open>Gain\<close> raises \<open>InvalidInputError\<close> for the label column or a
  column that is not in the schema. The shipped functions return on each of these inputs.
\<close>

theorem stubs_errors_counterexample:
  "(Entropy no_records :: py_error + real pyval) \<noteq> Inl EmptyDatasetError \<and>
   (Gain no_records ''A'' :: py_error + real pyval) \<noteq> Inl EmptyDatasetError \<and>
   (Gain worked_example ''L'' :: py_error + real pyval) \<noteq> Inl InvalidInputError \<and>
   (Gain worked_example ''Z'' :: py_error + real pyval) \<noteq> Inl InvalidInputError"
  by (simp add: Entropy_def Gain_def)

text \<open>
  Claim C8, amended. \<^verbatim>\<open>Entropy\<close> and \<^verbatim>\<open>Gain\<close> validate nothing and raise no error: they
  return on every dataset, also one without records, and for every column name, also the
  label column and a name that is not in the schema.
\<close>

theorem stubs_never_raise:
  "(\<exists>v. Entropy S = Inr v) \<and> (\<exists>v. Gain S feature = Inr v)"
  by (simp add: Entropy_def Gain_def)

section \<open>Entropy and gain at concrete tables\<close>

text \<open>
  Claim C2. The entropy of a non-empty dataset is \<open>- \<Sum> p log2 p\<close> over its label
  frequencies, and exactly \<open>0.0\<close> when it has one distinct label. Every record of
  \<open>car_head\<close> is labelled \<open>unacc\<close>; the shipped \<^verbatim>\<open>Entropy\<close> returns \<^verbatim>\<open>None\<close> on it, not
  \<open>0.0\<close>.
\<close>

theorem Entropy_one_label:
  "(Entropy car_head :: py_error + real pyval) = Inr PyNone \<and>
   (Entropy car_head :: py_error + real pyval) \<noteq> Inr (PyNum 0)"
  by (simp add: Entropy_def)

text \<open>
  Claim C3. The gain of a feature is the entropy of the dataset minus the weighted
  entropies of the parts the feature splits it into. Feature \<open>B\<close> splits \<open>tie_data\<close> into
  two pure parts, so its gain is the entropy of the whole, 1 bit; the shipped \<^verbatim>\<open>Gain\<close>
  returns \<^verbatim>\<open>None\<close>.
\<close>

theorem Gain_deciding_feature:
  "(Gain tie_data ''B'' :: py_error + real pyval) = Inr PyNone \<and>
   (Gain tie_data ''B'' :: py_error + real pyval) \<noteq> Inr (PyNum 1)"
  by (simp add: Gain_def)

text \<open>
  Claim C4. The gain is never negative, and is \<open>0.0\<close> for a feature with one distinct
  value. Feature \<open>buying\<close> is \<open>vhigh\<close> in every record of \<open>car_head\<close>; the shipped
  \<^verbatim>\<open>Gain\<close> returns \<^verbatim>\<open>None\<close> for it, which is not \<open>0.0\<close> and cannot be compared with 0.
\<close>

theorem Gain_constant_feature:
  "(Gain car_head ''buying'' :: py_error + real pyval) = Inr PyNone \<and>
   (Gain car_head ''buying'' :: py_error + real pyval) \<noteq> Inr (PyNum 0) \<and>
   py_gt (PyNum (0::real)) PyNone = Inl TypeError"
  by (simp add: Gain_def)

text \<open>
  Claim C5. The entropy of a dataset with \<open>k\<close> distinct labels lies between 0 and
  \<open>log2 k\<close>, reaching \<open>log2 k\<close> exactly for a uniform label distribution. The two labels
  of \<open>tie_data\<close> occur once each, so its entropy is \<open>log2 2 = 1\<close>; the shipped \<^verbatim>\<open>Entropy\<close>
  returns \<^verbatim>\<open>None\<close>.
\<close>

theorem Entropy_uniform_labels:
  "(Entropy tie_data :: py_error + real pyval) = Inr PyNone \<and>
   (Entropy tie_data :: py_error + real pyval) \<noteq> Inr (PyNum 1)"
  by (simp add: Entropy_def)

text \<open>
  Claim C6. On the worked example the entropy is about 0.8113 and the gain of \<open>A\<close> about
  0.3113. The shipped \<^verbatim>\<open>Entropy\<close> and \<^verbatim>\<open>Gain\<close> return \<^verbatim>\<open>None\<close> on it, for the whole
  table as for its two parts.
\<close>

theorem worked_example_None:
  "(Entropy worked_example :: py_error + real pyval) = Inr PyNone \<and>
   (Entropy (worked_example\<lparr>rows := [[''x'', ''0''], [''x'', ''1'']]\<rparr>) :: py_error + real pyval)
     = Inr PyNone \<and>
   (Entropy (worked_example\<lparr>rows := [[''y'', ''1''], [''y'', ''1'']]\<rparr>) :: py_error + real pyval)
     = Inr PyNone \<and>
   (Gain worked_example ''A'' :: py_error + real pyval) = Inr PyNone"
  by (simp add: Entropy_def Gain_def)

end
